theory Spec2Isabelle
  imports Complex_Main "HOL-Library.Multiset"
begin

section \<open>The platform's Date object\<close>

text \<open>
  The calculator works on JavaScript \<open>Date\<close> objects. A Date is its time value: the
  number of milliseconds since 1 January 1970, 00:00. The functions below are the abstract
  operations of ECMA-262 (section "Date Objects") that the calculator reaches through
  \<open>new Date(y, m, d)\<close>, \<open>getFullYear\<close>, \<open>getMonth\<close>, \<open>getDate\<close>, \<open>setMonth\<close>,
  \<open>setFullYear\<close>, \<open>setDate\<close> and \<open>getTime\<close>.

  Modelling decisions:
  \<^item> the functions of this section work on time values, which are integers without a
    bound; the range of a Date object (\<open>TimeClip\<close> to \<open>\<plusminus>8.64e15\<close> ms, the Invalid
    Date) is added in the subsection on Dates in range, and the functions named
    \<open>_clipped\<close> and \<open>getBillingCycleProgress\<close> are built on it;
  \<^item> local time is taken with a constant offset from UTC (no daylight saving), so a local
    time value and its UTC time value differ by a constant and the offset is taken as 0;
  \<^item> the clock, which the source reads with \<open>new Date()\<close>, is the explicit argument
    \<open>today\<close> / \<open>now\<close> of every function that reads it; a function passes its
    instant on to the functions it calls, so one call sees one instant.
\<close>

type_synonym Date = int

definition msPerDay :: int where
  "msPerDay = 86400000"

definition Day :: "int \<Rightarrow> int" where
  "Day t = t div msPerDay"

definition TimeWithinDay :: "int \<Rightarrow> int" where
  "TimeWithinDay t = t mod msPerDay"

definition DaysInYear :: "int \<Rightarrow> int" where
  "DaysInYear y =
     (if y mod 4 \<noteq> 0 then 365
      else if y mod 100 \<noteq> 0 then 366
      else if y mod 400 \<noteq> 0 then 365
      else 366)"

definition DayFromYear :: "int \<Rightarrow> int" where
  "DayFromYear y =
     365 * (y - 1970) + (y - 1969) div 4 - (y - 1901) div 100 + (y - 1601) div 400"

text \<open>
  ECMA-262 defines \<open>YearFromTime t\<close> as the largest year whose first day is not after
  \<open>t\<close>. The executable form estimates the year from the mean length of a Gregorian year
  (146097 days in 400 years) and corrects the estimate by at most one;
  \<open>YearFromDay_bounds\<close> and \<open>YearFromDay_unique\<close> below show
  that it is the year of the definition.
\<close>

definition YearFromDay :: "int \<Rightarrow> int" where
  "YearFromDay d =
     (let y = 1970 + (400 * d) div 146097
      in if d < DayFromYear y then y - 1
         else if DayFromYear (y + 1) \<le> d then y + 1
         else y)"

definition YearFromTime :: "int \<Rightarrow> int" where
  "YearFromTime t = YearFromDay (Day t)"

definition InLeapYear :: "int \<Rightarrow> int" where
  "InLeapYear t = (if DaysInYear (YearFromTime t) = 366 then 1 else 0)"

definition DayWithinYear :: "int \<Rightarrow> int" where
  "DayWithinYear t = Day t - DayFromYear (YearFromTime t)"

text \<open>The day number, within its year, of the first day of month \<open>m\<close> (0 = January).\<close>

definition monthStart :: "int \<Rightarrow> int \<Rightarrow> int" where
  "monthStart m leap =
     (if m = 0 then 0
      else if m = 1 then 31
      else if m = 2 then 59 + leap
      else if m = 3 then 90 + leap
      else if m = 4 then 120 + leap
      else if m = 5 then 151 + leap
      else if m = 6 then 181 + leap
      else if m = 7 then 212 + leap
      else if m = 8 then 243 + leap
      else if m = 9 then 273 + leap
      else if m = 10 then 304 + leap
      else 334 + leap)"

definition MonthFromTime :: "int \<Rightarrow> int" where
  "MonthFromTime t =
     (let d = DayWithinYear t; leap = InLeapYear t
      in if d < 31 then 0
         else if d < 59 + leap then 1
         else if d < 90 + leap then 2
         else if d < 120 + leap then 3
         else if d < 151 + leap then 4
         else if d < 181 + leap then 5
         else if d < 212 + leap then 6
         else if d < 243 + leap then 7
         else if d < 273 + leap then 8
         else if d < 304 + leap then 9
         else if d < 334 + leap then 10
         else 11)"

definition DateFromTime :: "int \<Rightarrow> int" where
  "DateFromTime t = DayWithinYear t - monthStart (MonthFromTime t) (InLeapYear t) + 1"

text \<open>
  \<open>MakeDay year month date\<close>: months outside 0..11 carry into the year, and the day of
  the month is an offset from the first of the month, so that day 31 of a 30-day month is
  the first of the next one and day 0 is the last day of the month before.
\<close>

definition MakeDay :: "int \<Rightarrow> int \<Rightarrow> int \<Rightarrow> int" where
  "MakeDay year month date =
     (let ym = year + month div 12;
          mn = month mod 12;
          leap = (if DaysInYear ym = 366 then 1 else 0)
      in DayFromYear ym + monthStart mn leap + date - 1)"

definition MakeDate :: "int \<Rightarrow> int \<Rightarrow> int" where
  "MakeDate day time = day * msPerDay + time"

text \<open>\<open>new Date(year, month, day)\<close>: midnight; a year in 0..99 means 1900 + year.\<close>

definition newDate :: "int \<Rightarrow> int \<Rightarrow> int \<Rightarrow> Date" where
  "newDate year month day =
     (let yr = (if 0 \<le> year \<and> year \<le> 99 then 1900 + year else year)
      in MakeDate (MakeDay yr month day) 0)"

text \<open>
  The getters and setters on a time value: the arithmetic of the methods, before
  \<open>TimeClip\<close>.
\<close>

definition getFullYear :: "Date \<Rightarrow> int" where
  "getFullYear t = YearFromTime t"

definition getMonth :: "Date \<Rightarrow> int" where
  "getMonth t = MonthFromTime t"

definition getDate :: "Date \<Rightarrow> int" where
  "getDate t = DateFromTime t"

definition getTime :: "Date \<Rightarrow> int" where
  "getTime t = t"

definition setMonth :: "Date \<Rightarrow> int \<Rightarrow> Date" where
  "setMonth t month =
     MakeDate (MakeDay (YearFromTime t) month (DateFromTime t)) (TimeWithinDay t)"

definition setFullYear :: "Date \<Rightarrow> int \<Rightarrow> Date" where
  "setFullYear t year =
     MakeDate (MakeDay year (MonthFromTime t) (DateFromTime t)) (TimeWithinDay t)"

definition setDate :: "Date \<Rightarrow> int \<Rightarrow> Date" where
  "setDate t date =
     MakeDate (MakeDay (YearFromTime t) (MonthFromTime t) date) (TimeWithinDay t)"

section \<open>Subscriptions\<close>

text \<open>
  \<open>src/types/subscription.types.ts\<close>. The display and bookkeeping fields (service name,
  icon, payment method, notes, timestamps) are read by no calculation and are left out.
  A \<open>number\<close> that holds money is a real (rounding of the floating-point operations is
  not modelled); a \<open>number\<close> that holds a count or a day is an integer. An optional
  field is an \<open>option\<close>. \<open>frequency\<close> is the string the record carries at run
  time, so that values outside \<open>BillingFrequency\<close> reach the \<open>default\<close> branches.
\<close>

datatype Currency = USD | INR | EUR | GBP | AUD

record Subscription =
  ident :: string
  amount :: real
  currency :: Currency
  billingDate :: int
  frequency :: string
  customFrequencyDays :: "int option"
  startDate :: Date
  isOneTime :: bool
  cycleLimit :: "int option"
  reminderEnabled :: bool
  reminderDaysBefore :: int
  isDeleted :: "bool option"

datatype error = Error string

text \<open>The truth value of an optional number in a condition: \<open>undefined\<close> and 0 are false.\<close>

definition truthy :: "int option \<Rightarrow> bool" where
  "truthy v = (case v of None \<Rightarrow> False | Some n \<Rightarrow> n \<noteq> 0)"

text \<open>The truth value of the optional flag \<open>isDeleted\<close>.\<close>

definition deleted :: "Subscription \<Rightarrow> bool" where
  "deleted sub = (isDeleted sub = Some True)"

section \<open>SubscriptionCalculator\<close>

subsection \<open>Billing cycles\<close>

definition addBillingCycle :: "Date \<Rightarrow> string \<Rightarrow> int option \<Rightarrow> Date" where
  "addBillingCycle date freq customDays =
     (if freq = ''monthly'' then setMonth date (getMonth date + 1)
      else if freq = ''quarterly'' then setMonth date (getMonth date + 3)
      else if freq = ''half-yearly'' then setMonth date (getMonth date + 6)
      else if freq = ''yearly'' then setFullYear date (getFullYear date + 1)
      else if freq = ''custom'' then
        (case customDays of
           None \<Rightarrow> date
         | Some n \<Rightarrow> if n \<noteq> 0 then setDate date (getDate date + n) else date)
      else date)"

definition subtractBillingCycle :: "Date \<Rightarrow> string \<Rightarrow> int option \<Rightarrow> Date" where
  "subtractBillingCycle date freq customDays =
     (if freq = ''monthly'' then setMonth date (getMonth date - 1)
      else if freq = ''quarterly'' then setMonth date (getMonth date - 3)
      else if freq = ''half-yearly'' then setMonth date (getMonth date - 6)
      else if freq = ''yearly'' then setFullYear date (getFullYear date - 1)
      else if freq = ''custom'' then
        (case customDays of
           None \<Rightarrow> date
         | Some n \<Rightarrow> if n \<noteq> 0 then setDate date (getDate date - n) else date)
      else date)"

text \<open>
  The loop \<open>for (let i = 0; i < limit; i++) d = addBillingCycle(d, frequency, customDays)\<close>
  of \<open>getSubscriptionEndDate\<close> and \<open>getCancellationReminderDate\<close>, from the counter
  value \<open>i\<close> on.
\<close>

function addCycles :: "int \<Rightarrow> int \<Rightarrow> Date \<Rightarrow> string \<Rightarrow> int option \<Rightarrow> Date" where
  "addCycles i limit d freq customDays =
     (if i < limit then addCycles (i + 1) limit (addBillingCycle d freq customDays) freq customDays
      else d)"
  by pat_completeness auto
termination
  by (relation "measure (\<lambda>(i, limit, d, freq, customDays). nat (limit - i))") auto

declare addCycles.simps [simp del]

subsection \<open>End date, cancellation reminder, next billing date\<close>

definition notOneTime :: error where
  "notOneTime = Error ''Not a one-time subscription''"

definition getSubscriptionEndDate :: "Subscription \<Rightarrow> error + Date" where
  "getSubscriptionEndDate s =
     (if \<not> isOneTime s \<or> \<not> truthy (cycleLimit s) then Inl notOneTime
      else case cycleLimit s of
             None \<Rightarrow> Inl notOneTime
           | Some n \<Rightarrow> Inr (addCycles 0 n (startDate s) (frequency s) (customFrequencyDays s)))"

definition getCancellationReminderDate :: "Subscription \<Rightarrow> Date option" where
  "getCancellationReminderDate s =
     (if \<not> isOneTime s \<or> \<not> truthy (cycleLimit s) then None
      else case cycleLimit s of
             None \<Rightarrow> None
           | Some n \<Rightarrow>
               if n \<le> 1 then None
               else Some (addCycles 0 (n - 1) (startDate s) (frequency s) (customFrequencyDays s)))"

text \<open>
  \<open>getNextBillingDate\<close>. The first block is the early return for a one-time
  subscription that has ended; an exception of \<open>getSubscriptionEndDate\<close> would pass
  through.
\<close>

definition getNextBillingDate :: "Subscription \<Rightarrow> Date \<Rightarrow> error + Date" where
  "getNextBillingDate s today =
     (let billingDay = billingDate s;
          ended =
            (if isOneTime s \<and> truthy (cycleLimit s) then
               (case getSubscriptionEndDate s of
                  Inl e \<Rightarrow> Inl e
                | Inr endDate \<Rightarrow> Inr (if today > endDate then Some endDate else None))
             else Inr None)
      in case ended of
           Inl e \<Rightarrow> Inl e
         | Inr (Some endDate) \<Rightarrow> Inr endDate
         | Inr None \<Rightarrow>
             (let nextDate = newDate (getFullYear today) (getMonth today) billingDay
              in Inr (if nextDate \<le> today
                      then addBillingCycle nextDate (frequency s) (customFrequencyDays s)
                      else nextDate)))"

text \<open>\<open>Math.ceil(diffTime / (1000 * 60 * 60 * 24))\<close> on integers.\<close>

definition ceilDays :: "int \<Rightarrow> int" where
  "ceilDays diffTime = - ((- diffTime) div (1000 * 60 * 60 * 24))"

definition getDaysUntilBilling :: "Subscription \<Rightarrow> Date \<Rightarrow> error + int" where
  "getDaysUntilBilling s today =
     (case getNextBillingDate s today of
        Inl e \<Rightarrow> Inl e
      | Inr nextBilling \<Rightarrow> Inr (ceilDays (getTime nextBilling - getTime today)))"

subsection \<open>Money\<close>

definition getMonthlyEquivalent :: "Subscription \<Rightarrow> real" where
  "getMonthlyEquivalent s =
     (if frequency s = ''monthly'' then amount s
      else if frequency s = ''quarterly'' then amount s / 3
      else if frequency s = ''half-yearly'' then amount s / 6
      else if frequency s = ''yearly'' then amount s / 12
      else if frequency s = ''custom'' then
        (case customFrequencyDays s of
           None \<Rightarrow> amount s
         | Some n \<Rightarrow> if n \<noteq> 0 then (amount s * 30) / real_of_int n else amount s)
      else amount s)"

fun rates :: "Currency \<Rightarrow> real" where
  "rates USD = 1"
| "rates INR = 83.0"
| "rates EUR = 0.92"
| "rates GBP = 0.79"
| "rates AUD = 1.52"

definition convertCurrency :: "real \<Rightarrow> Currency \<Rightarrow> Currency \<Rightarrow> real" where
  "convertCurrency amt from to =
     (if from = to then amt
      else (let inUSD = amt / rates from in inUSD * rates to))"

definition calculateTotalMonthlySpend :: "Subscription list \<Rightarrow> Currency \<Rightarrow> real" where
  "calculateTotalMonthlySpend subscriptions targetCurrency =
     foldl (\<lambda>total sub.
              let monthlyAmount = getMonthlyEquivalent sub;
                  convertedAmount = convertCurrency monthlyAmount (currency sub) targetCurrency
              in total + monthlyAmount)
           0
           (filter (\<lambda>sub. \<not> deleted sub) subscriptions)"

subsection \<open>Upcoming subscriptions\<close>

text \<open>
  \<open>Array.prototype.filter\<close> with a callback that may throw: the first exception ends the
  call.
\<close>

fun filterE :: "('a \<Rightarrow> error + bool) \<Rightarrow> 'a list \<Rightarrow> error + 'a list" where
  "filterE p [] = Inr []"
| "filterE p (x # xs) =
     (case p x of
        Inl e \<Rightarrow> Inl e
      | Inr keep \<Rightarrow>
          (case filterE p xs of
             Inl e \<Rightarrow> Inl e
           | Inr r \<Rightarrow> Inr (if keep then x # r else r)))"

text \<open>
  \<open>Array.prototype.sort\<close> with a comparator: the sort is stable, so with a comparator
  that orders by a key its result is the one of a stable insertion sort. An element goes
  before the first element of the sorted rest that it does not compare greater than.
\<close>

fun insertE :: "('a \<Rightarrow> 'a \<Rightarrow> error + int) \<Rightarrow> 'a \<Rightarrow> 'a list \<Rightarrow> error + 'a list" where
  "insertE cmp x [] = Inr [x]"
| "insertE cmp x (y # ys) =
     (case cmp x y of
        Inl e \<Rightarrow> Inl e
      | Inr c \<Rightarrow>
          if c \<le> 0 then Inr (x # y # ys)
          else (case insertE cmp x ys of
                  Inl e \<Rightarrow> Inl e
                | Inr r \<Rightarrow> Inr (y # r)))"

fun sortE :: "('a \<Rightarrow> 'a \<Rightarrow> error + int) \<Rightarrow> 'a list \<Rightarrow> error + 'a list" where
  "sortE cmp [] = Inr []"
| "sortE cmp (x # xs) =
     (case sortE cmp xs of
        Inl e \<Rightarrow> Inl e
      | Inr r \<Rightarrow> insertE cmp x r)"

text \<open>The filter callback and the comparator of \<open>getUpcomingSubscriptions\<close>.\<close>

definition upcomingFilter :: "int \<Rightarrow> Date \<Rightarrow> Subscription \<Rightarrow> error + bool" where
  "upcomingFilter days today sub =
     (if deleted sub then Inr False
      else case getDaysUntilBilling sub today of
             Inl e \<Rightarrow> Inl e
           | Inr daysUntil \<Rightarrow> Inr (daysUntil \<ge> 0 \<and> daysUntil \<le> days))"

definition upcomingCompare :: "Date \<Rightarrow> Subscription \<Rightarrow> Subscription \<Rightarrow> error + int" where
  "upcomingCompare today a b =
     (case getDaysUntilBilling a today of
        Inl e \<Rightarrow> Inl e
      | Inr da \<Rightarrow>
          (case getDaysUntilBilling b today of
             Inl e \<Rightarrow> Inl e
           | Inr db \<Rightarrow> Inr (da - db)))"

definition getUpcomingSubscriptions ::
    "Subscription list \<Rightarrow> int \<Rightarrow> Date \<Rightarrow> error + Subscription list" where
  "getUpcomingSubscriptions subscriptions days today =
     (case filterE (upcomingFilter days today) subscriptions of
        Inl e \<Rightarrow> Inl e
      | Inr kept \<Rightarrow> sortE (upcomingCompare today) kept)"

subsection \<open>Progress of the billing cycle\<close>

text \<open>
  The quotient \<open>elapsed / totalTime\<close> is a floating-point division of two integers, and
  its divisor can be zero: the values a \<open>number\<close> takes here are the finite ones, the two
  infinities and NaN. \<open>Math.min\<close> and \<open>Math.max\<close> return NaN when an argument is NaN.
\<close>

datatype number = Finite real | PosInfinity | NegInfinity | NaN

definition divide_number :: "int \<Rightarrow> int \<Rightarrow> number" where
  "divide_number a b =
     (if b \<noteq> 0 then Finite (real_of_int a / real_of_int b)
      else if a > 0 then PosInfinity
      else if a < 0 then NegInfinity
      else NaN)"

text \<open>Multiplication by a positive finite constant.\<close>

definition times_number :: "number \<Rightarrow> real \<Rightarrow> number" where
  "times_number x c = (case x of Finite r \<Rightarrow> Finite (r * c) | other \<Rightarrow> other)"

fun Math_min :: "number \<Rightarrow> number \<Rightarrow> number" where
  "Math_min NaN y = NaN"
| "Math_min x NaN = NaN"
| "Math_min NegInfinity y = NegInfinity"
| "Math_min x NegInfinity = NegInfinity"
| "Math_min PosInfinity y = y"
| "Math_min x PosInfinity = x"
| "Math_min (Finite a) (Finite b) = Finite (min a b)"

fun Math_max :: "number \<Rightarrow> number \<Rightarrow> number" where
  "Math_max NaN y = NaN"
| "Math_max x NaN = NaN"
| "Math_max PosInfinity y = PosInfinity"
| "Math_max x PosInfinity = PosInfinity"
| "Math_max NegInfinity y = y"
| "Math_max x NegInfinity = x"
| "Math_max (Finite a) (Finite b) = Finite (max a b)"

subsection \<open>Dates in range and the Invalid Date\<close>

text \<open>
  A Date object holds a time value of at most 8.64e15 ms in magnitude, or it is the Invalid
  Date, whose time value is NaN: the constructors and the setters of ECMA-262 end with
  \<open>TimeClip\<close>. Below, a Date object is a \<open>Date option\<close> and \<open>None\<close> is the Invalid
  Date; a number that may be NaN is an \<open>int option\<close> and \<open>None\<close> is NaN.
  \<^item> The getters of the Invalid Date return NaN, and a sum with NaN is NaN.
  \<^item> \<open>setMonth\<close> and \<open>setDate\<close> leave the Invalid Date as it is; \<open>setFullYear\<close>
    starts from the time value 0 when the Date is invalid. A NaN argument makes the
    result of every setter the Invalid Date.
  \<^item> A comparison with the Invalid Date is false, and its \<open>getTime()\<close> is NaN.
  The instant \<open>now\<close> comes from \<open>new Date()\<close> and is a time value.
\<close>

definition maxTime :: int where
  "maxTime = 8640000000000000"

definition TimeClip :: "int \<Rightarrow> Date option" where
  "TimeClip t = (if \<bar>t\<bar> \<le> maxTime then Some t else None)"

definition Date_getFullYear :: "Date option \<Rightarrow> int option" where
  "Date_getFullYear d = map_option getFullYear d"

definition Date_getMonth :: "Date option \<Rightarrow> int option" where
  "Date_getMonth d = map_option getMonth d"

definition Date_getDate :: "Date option \<Rightarrow> int option" where
  "Date_getDate d = map_option getDate d"

definition Date_getTime :: "Date option \<Rightarrow> int option" where
  "Date_getTime d = map_option getTime d"

text \<open>\<open>x + n\<close> and \<open>x - y\<close> for numbers that may be NaN.\<close>

definition plus_number :: "int option \<Rightarrow> int \<Rightarrow> int option" where
  "plus_number x n = map_option (\<lambda>v. v + n) x"

definition minus_number :: "int option \<Rightarrow> int option \<Rightarrow> int option" where
  "minus_number x y =
     (case x of None \<Rightarrow> None | Some a \<Rightarrow> (case y of None \<Rightarrow> None | Some b \<Rightarrow> Some (a - b)))"

definition Date_setMonth :: "Date option \<Rightarrow> int option \<Rightarrow> Date option" where
  "Date_setMonth d month =
     (case d of
        None \<Rightarrow> None
      | Some t \<Rightarrow> (case month of None \<Rightarrow> None | Some m \<Rightarrow> TimeClip (setMonth t m)))"

definition Date_setFullYear :: "Date option \<Rightarrow> int option \<Rightarrow> Date option" where
  "Date_setFullYear d year =
     (case year of
        None \<Rightarrow> None
      | Some y \<Rightarrow> TimeClip (setFullYear (case d of None \<Rightarrow> 0 | Some t \<Rightarrow> t) y))"

definition Date_setDate :: "Date option \<Rightarrow> int option \<Rightarrow> Date option" where
  "Date_setDate d date =
     (case d of
        None \<Rightarrow> None
      | Some t \<Rightarrow> (case date of None \<Rightarrow> None | Some n \<Rightarrow> TimeClip (setDate t n)))"

text \<open>
  The two cycle helpers on Date objects. \<open>new Date(date)\<close> copies the Date, and the copy
  is returned untouched where the source changes nothing.
\<close>

definition addBillingCycle_clipped :: "Date option \<Rightarrow> string \<Rightarrow> int option \<Rightarrow> Date option" where
  "addBillingCycle_clipped date freq customDays =
     (if freq = ''monthly'' then Date_setMonth date (plus_number (Date_getMonth date) 1)
      else if freq = ''quarterly'' then Date_setMonth date (plus_number (Date_getMonth date) 3)
      else if freq = ''half-yearly'' then Date_setMonth date (plus_number (Date_getMonth date) 6)
      else if freq = ''yearly'' then
        Date_setFullYear date (plus_number (Date_getFullYear date) 1)
      else if freq = ''custom'' then
        (case customDays of
           None \<Rightarrow> date
         | Some n \<Rightarrow>
             if n \<noteq> 0 then Date_setDate date (plus_number (Date_getDate date) n) else date)
      else date)"

definition subtractBillingCycle_clipped ::
    "Date option \<Rightarrow> string \<Rightarrow> int option \<Rightarrow> Date option" where
  "subtractBillingCycle_clipped date freq customDays =
     (if freq = ''monthly'' then Date_setMonth date (plus_number (Date_getMonth date) (- 1))
      else if freq = ''quarterly'' then
        Date_setMonth date (plus_number (Date_getMonth date) (- 3))
      else if freq = ''half-yearly'' then
        Date_setMonth date (plus_number (Date_getMonth date) (- 6))
      else if freq = ''yearly'' then
        Date_setFullYear date (plus_number (Date_getFullYear date) (- 1))
      else if freq = ''custom'' then
        (case customDays of
           None \<Rightarrow> date
         | Some n \<Rightarrow>
             if n \<noteq> 0 then Date_setDate date (plus_number (Date_getDate date) (- n))
             else date)
      else date)"

function addCycles_clipped ::
    "int \<Rightarrow> int \<Rightarrow> Date option \<Rightarrow> string \<Rightarrow> int option \<Rightarrow> Date option" where
  "addCycles_clipped i limit d freq customDays =
     (if i < limit
      then addCycles_clipped (i + 1) limit (addBillingCycle_clipped d freq customDays)
             freq customDays
      else d)"
  by pat_completeness auto
termination
  by (relation "measure (\<lambda>(i, limit, d, freq, customDays). nat (limit - i))") auto

declare addCycles_clipped.simps [simp del]

definition getSubscriptionEndDate_clipped :: "Subscription \<Rightarrow> error + Date option" where
  "getSubscriptionEndDate_clipped s =
     (if \<not> isOneTime s \<or> \<not> truthy (cycleLimit s) then Inl notOneTime
      else case cycleLimit s of
             None \<Rightarrow> Inl notOneTime
           | Some n \<Rightarrow>
               Inr (addCycles_clipped 0 n (TimeClip (startDate s)) (frequency s)
                      (customFrequencyDays s)))"

definition getNextBillingDate_clipped :: "Subscription \<Rightarrow> Date \<Rightarrow> error + Date option" where
  "getNextBillingDate_clipped s today =
     (let billingDay = billingDate s;
          ended =
            (if isOneTime s \<and> truthy (cycleLimit s) then
               (case getSubscriptionEndDate_clipped s of
                  Inl e \<Rightarrow> Inl e
                | Inr endDate \<Rightarrow>
                    Inr (case endDate of
                           None \<Rightarrow> None
                         | Some e \<Rightarrow> if today > e then Some endDate else None))
             else Inr None)
      in case ended of
           Inl e \<Rightarrow> Inl e
         | Inr (Some endDate) \<Rightarrow> Inr endDate
         | Inr None \<Rightarrow>
             (let nextDate = TimeClip (newDate (getFullYear today) (getMonth today) billingDay)
              in Inr (case nextDate of
                        None \<Rightarrow> nextDate
                      | Some c \<Rightarrow>
                          if c \<le> today
                          then addBillingCycle_clipped nextDate (frequency s)
                                 (customFrequencyDays s)
                          else nextDate)))"

text \<open>
  \<open>getBillingCycleProgress\<close>: \<open>totalTime\<close> and \<open>elapsed\<close> are NaN when a Date they
  read is invalid, and then so are \<open>progress\<close> and the result.
\<close>

definition getBillingCycleProgress :: "Subscription \<Rightarrow> Date \<Rightarrow> error + number" where
  "getBillingCycleProgress s now =
     (case getNextBillingDate_clipped s now of
        Inl e \<Rightarrow> Inl e
      | Inr nextBilling \<Rightarrow>
          (let prevBilling =
                 subtractBillingCycle_clipped nextBilling (frequency s) (customFrequencyDays s);
               totalTime = minus_number (Date_getTime nextBilling) (Date_getTime prevBilling);
               elapsed = minus_number (Some (getTime now)) (Date_getTime prevBilling);
               progress =
                 (case elapsed of
                    None \<Rightarrow> NaN
                  | Some e \<Rightarrow>
                      (case totalTime of
                         None \<Rightarrow> NaN
                       | Some t \<Rightarrow> times_number (divide_number e t) 100))
           in Inr (Math_max (Finite 0) (Math_min (Finite 100) progress))))"

section \<open>Example subscriptions\<close>

text \<open>
  A monthly subscription billed on the 15th, started on 15 January 2024; the examples
  below vary its fields.
\<close>

definition monthly15 :: Subscription where
  "monthly15 =
     \<lparr>ident = ''netflix'', amount = 9.99, currency = USD, billingDate = 15,
      frequency = ''monthly'', customFrequencyDays = None, startDate = newDate 2024 0 15,
      isOneTime = False, cycleLimit = None, reminderEnabled = False,
      reminderDaysBefore = 0, isDeleted = None\<rparr>"

text \<open>Billed every 7 days, with the first of the month as billing day.\<close>

definition weekly1 :: Subscription where
  "weekly1 =
     monthly15\<lparr>frequency := ''custom'', customFrequencyDays := Some 7, billingDate := 1\<rparr>"

text \<open>Six monthly cycles from 1 January 2024.\<close>

definition sixMonths :: Subscription where
  "sixMonths =
     monthly15\<lparr>startDate := newDate 2024 0 1, isOneTime := True, cycleLimit := Some 6\<rparr>"



text \<open>A custom cycle of 1000000000 days, billed on the 15th.\<close>

definition hugeCycle :: Subscription where
  "hugeCycle = monthly15\<lparr>frequency := ''custom'', customFrequencyDays := Some 1000000000\<rparr>"

text \<open>Billed yearly on the 29th.\<close>

definition yearly29 :: Subscription where
  "yearly29 = monthly15\<lparr>frequency := ''yearly'', billingDate := 29\<rparr>"

section \<open>The calendar\<close>

subsection \<open>Length of a year\<close>

text \<open>
  Each of the three quotients in \<open>DayFromYear\<close> grows by one exactly at the years its
  divisor divides, so a year adds its own number of days.
\<close>

lemma div_step:
  fixes x n :: int
  assumes "0 < n"
  shows "x div n = (x - 1) div n + (if x mod n = 0 then 1 else 0)"
proof (cases "x mod n = 0")
  case True
  have "x = n * (x div n) + x mod n" by simp
  with True have "x - 1 = n * (x div n - 1) + (n - 1)" by (simp add: algebra_simps)
  then have "(x - 1) div n = x div n - 1"
    by (rule int_div_pos_eq) (use assms in auto)
  with True show ?thesis by simp
next
  case False
  have "0 \<le> x mod n" using assms by simp
  with False have pos: "0 \<le> x mod n - 1" by linarith
  have lt: "x mod n - 1 < n" using pos_mod_bound [OF assms, of x] by linarith
  have "x - 1 = n * (x div n) + (x mod n - 1)" by simp
  then have "(x - 1) div n = x div n"
    using pos lt by (rule int_div_pos_eq)
  with False show ?thesis by simp
qed

lemma mod_shift:
  fixes y :: int
  shows "(y - n * k) mod n = y mod n"
  by (metis mod_mult_self1 diff_conv_add_uminus mult_minus_right mult.commute)

lemma leap4: "((y::int) - 1968) mod 4 = y mod 4"
  using mod_shift [of y 4 492] by simp

lemma leap100: "((y::int) - 1900) mod 100 = y mod 100"
  using mod_shift [of y 100 19] by simp

lemma leap400: "((y::int) - 1600) mod 400 = y mod 400"
  using mod_shift [of y 400 4] by simp

lemma mod100_4: "(y::int) mod 100 = 0 \<Longrightarrow> y mod 4 = 0"
proof -
  assume a: "y mod 100 = 0"
  have "y mod 100 mod 4 = y mod 4" by (rule mod_mod_cancel) simp
  with a show ?thesis by simp
qed

lemma mod400_100: "(y::int) mod 400 = 0 \<Longrightarrow> y mod 100 = 0"
proof -
  assume a: "y mod 400 = 0"
  have "y mod 400 mod 100 = y mod 100" by (rule mod_mod_cancel) simp
  with a show ?thesis by simp
qed

lemma DaysInYear_sum:
  "DaysInYear y = 365 + (if y mod 4 = 0 then 1 else 0) - (if y mod 100 = 0 then 1 else 0)
                      + (if y mod 400 = 0 then 1 else 0)"
  using mod100_4 [of y] mod400_100 [of y]
  by (cases "y mod 4 = 0"; cases "y mod 100 = 0"; cases "y mod 400 = 0")
     (simp_all add: DaysInYear_def)

lemma DayFromYear_step: "DayFromYear (y + 1) = DayFromYear y + DaysInYear y"
proof -
  define A where "A = (y - 1969) div 4"
  define B where "B = (y - 1901) div 100"
  define C where "C = (y - 1601) div 400"
  define i4 :: int where "i4 = (if y mod 4 = 0 then 1 else 0)"
  define i100 :: int where "i100 = (if y mod 100 = 0 then 1 else 0)"
  define i400 :: int where "i400 = (if y mod 400 = 0 then 1 else 0)"
  have a: "(y - 1968) div 4 = A + i4"
    using div_step [of 4 "y - 1968"] by (simp add: leap4 A_def i4_def)
  have b: "(y - 1900) div 100 = B + i100"
    using div_step [of 100 "y - 1900"] by (simp add: leap100 B_def i100_def)
  have c: "(y - 1600) div 400 = C + i400"
    using div_step [of 400 "y - 1600"] by (simp add: leap400 C_def i400_def)
  have "DayFromYear (y + 1) = 365 * (y - 1969) + (y - 1968) div 4 - (y - 1900) div 100 + (y - 1600) div 400"
    by (simp add: DayFromYear_def)
  also have "\<dots> = 365 * (y - 1969) + (A + i4) - (B + i100) + (C + i400)"
    by (simp only: a b c)
  also have "\<dots> = (365 * (y - 1970) + A - B + C) + (365 + i4 - i100 + i400)"
    by (simp add: algebra_simps)
  also have "365 * (y - 1970) + A - B + C = DayFromYear y"
    by (simp only: DayFromYear_def A_def B_def C_def)
  also have "365 + i4 - i100 + i400 = DaysInYear y"
    by (simp only: DaysInYear_sum i4_def i100_def i400_def)
  finally show ?thesis .
qed

text \<open>
  A time value is rebuilt from its year, month, day of the month and time within the day,
  whatever \<open>YearFromTime\<close> returns; so \<open>setDate\<close> with the day of the month moved by
  \<open>n\<close> moves the time value by \<open>n\<close> days.
\<close>

lemma DaysInYear_ge: "365 \<le> DaysInYear y"
  by (simp add: DaysInYear_def)

lemma DaysInYear_le: "DaysInYear y \<le> 366"
  by (simp add: DaysInYear_def)

lemma MonthFromTime_range: "0 \<le> MonthFromTime t \<and> MonthFromTime t \<le> 11"
  by (simp add: MonthFromTime_def Let_def)

lemma MakeDay_roundtrip: "MakeDay (YearFromTime t) (MonthFromTime t) (DateFromTime t) = Day t"
  by (simp add: MakeDay_def DateFromTime_def DayWithinYear_def InLeapYear_def MonthFromTime_def Let_def)

lemma MakeDate_roundtrip: "MakeDate (Day t) (TimeWithinDay t) = t"
  by (simp add: MakeDate_def Day_def TimeWithinDay_def)

lemma MakeDay_date: "MakeDay y m (d + n) = MakeDay y m d + n"
  by (simp add: MakeDay_def Let_def)

lemma setDate_shift: "setDate t (getDate t + n) = t + n * msPerDay"
proof -
  have "setDate t (getDate t + n) = MakeDate (Day t + n) (TimeWithinDay t)"
    by (simp only: setDate_def getDate_def MakeDay_date MakeDay_roundtrip)
  also have "\<dots> = MakeDate (Day t) (TimeWithinDay t) + n * msPerDay"
    by (simp add: MakeDate_def algebra_simps)
  finally show ?thesis by (simp only: MakeDate_roundtrip)
qed

text \<open>
  \<open>YearFromDay\<close> is the year of ECMA-262: the first day of the year it returns is not
  after the day, the first day of the next year is, and no other year has this property.
\<close>

lemma div_bounds:
  fixes x n :: int
  assumes "0 < n"
  shows "n * (x div n) \<le> x" and "x < n * (x div n) + n"
proof -
  have e: "x = n * (x div n) + x mod n" by simp
  have "0 \<le> x mod n" and "x mod n < n" using assms by simp_all
  then show "n * (x div n) \<le> x" and "x < n * (x div n) + n" using e by linarith+
qed

lemma DayFromYear_bounds:
  "146097 * k - 506 \<le> 400 * DayFromYear (1970 + k)"
  "400 * DayFromYear (1970 + k) \<le> 146097 * k + 589"
proof -
  define A where "A = (k + 1) div 4"
  define B where "B = (k + 69) div 100"
  define C where "C = (k + 369) div 400"
  have "DayFromYear (1970 + k) = 365 * k + A - B + C"
    by (simp add: DayFromYear_def A_def B_def C_def add.commute)
  then have d: "400 * DayFromYear (1970 + k) = 146000 * k + 400 * A - 400 * B + 400 * C"
    by simp
  have a: "400 * A \<le> 100 * k + 100" "100 * k - 200 \<le> 400 * A"
    unfolding A_def using div_bounds [of 4 "k + 1"] by linarith+
  have b: "400 * B \<le> 4 * k + 276" "4 * k - 120 \<le> 400 * B"
    unfolding B_def using div_bounds [of 100 "k + 69"] by linarith+
  have c: "400 * C \<le> k + 369" "k - 30 \<le> 400 * C"
    unfolding C_def using div_bounds [of 400 "k + 369"] by linarith+
  show "146097 * k - 506 \<le> 400 * DayFromYear (1970 + k)"
    unfolding d using a b c by linarith
  show "400 * DayFromYear (1970 + k) \<le> 146097 * k + 589"
    unfolding d using a b c by linarith
qed

lemma YearFromDay_bounds:
  "DayFromYear (YearFromDay d) \<le> d \<and> d < DayFromYear (YearFromDay d + 1)"
proof -
  define k where "k = (400 * d) div 146097"
  have kb: "146097 * k \<le> 400 * d" "400 * d < 146097 * k + 146097"
    unfolding k_def using div_bounds [of 146097 "400 * d"] by simp_all
  have lo: "DayFromYear (1970 + k - 1) \<le> d"
    using DayFromYear_bounds(2) [of "k - 1"] kb by (simp add: algebra_simps)
  have hi: "d < DayFromYear (1970 + k + 1 + 1)"
    using DayFromYear_bounds(1) [of "k + 2"] kb by (simp add: algebra_simps)
  show ?thesis
    unfolding YearFromDay_def Let_def k_def [symmetric]
    using lo hi by (simp add: algebra_simps)
qed

lemma DayFromYear_mono: "y \<le> z \<Longrightarrow> DayFromYear y \<le> DayFromYear z"
proof (induction z rule: int_ge_induct)
  case base
  show ?case by simp
next
  case (step i)
  have "DayFromYear i \<le> DayFromYear (i + 1)"
    using DayFromYear_step [of i] DaysInYear_ge [of i] by linarith
  with step.IH show ?case by linarith
qed

lemma YearFromDay_unique:
  assumes "DayFromYear y \<le> d" and "d < DayFromYear (y + 1)"
  shows "YearFromDay d = y"
proof (rule ccontr)
  assume ne: "YearFromDay d \<noteq> y"
  have b: "DayFromYear (YearFromDay d) \<le> d" "d < DayFromYear (YearFromDay d + 1)"
    using YearFromDay_bounds [of d] by simp_all
  show False
  proof (cases "YearFromDay d < y")
    case True
    then have "DayFromYear (YearFromDay d + 1) \<le> DayFromYear y"
      by (intro DayFromYear_mono) simp
    with b(2) assms(1) show False by linarith
  next
    case False
    with ne have "DayFromYear (y + 1) \<le> DayFromYear (YearFromDay d)"
      by (intro DayFromYear_mono) simp
    with b(1) assms(2) show False by linarith
  qed
qed

text \<open>\<open>ceilDays\<close> is the ceiling of the quotient of reals.\<close>

lemma ceilDays_ceiling: "ceilDays x = \<lceil>real_of_int x / (1000 * 60 * 60 * 24)\<rceil>"
proof -
  have "\<lceil>real_of_int x / real_of_int 86400000\<rceil> = - ((- x) div 86400000)"
    by (simp only: ceiling_divide_eq_div)
  then show ?thesis by (simp add: ceilDays_def)
qed

text \<open>Moving the month or the year back, with the same day of the month, gives an earlier day.\<close>

lemma month_cases:
  fixes m :: int
  assumes "0 \<le> m" "m \<le> 11"
  shows "m = 0 \<or> m = 1 \<or> m = 2 \<or> m = 3 \<or> m = 4 \<or> m = 5 \<or> m = 6 \<or> m = 7 \<or> m = 8
         \<or> m = 9 \<or> m = 10 \<or> m = 11"
  using assms by presburger

lemma DayFromYear_pred: "DayFromYear y = DayFromYear (y - 1) + DaysInYear (y - 1)"
  using DayFromYear_step [of "y - 1"] by simp

lemma MakeDay_month_less:
  assumes m: "0 \<le> m" "m \<le> 11" and k: "k = 1 \<or> k = 3 \<or> k = 6"
  shows "MakeDay y (m - k) d < MakeDay y m d"
proof -
  note st = DayFromYear_pred [of y]
  note ge = DaysInYear_ge [of "y - 1"]
  from month_cases [OF m] k show ?thesis
    using st ge by (elim disjE) (simp_all add: MakeDay_def monthStart_def Let_def)
qed

lemma MakeDay_year_less:
  assumes m: "0 \<le> m" "m \<le> 11"
  shows "MakeDay (y - 1) m d < MakeDay y m d"
proof -
  note st = DayFromYear_pred [of y]
  note ge = DaysInYear_ge [of "y - 1"]
  from month_cases [OF m] show ?thesis
    using st ge by (elim disjE) (simp_all add: MakeDay_def monthStart_def Let_def)
qed

subsection \<open>One cycle back is strictly earlier\<close>

lemma MakeDate_less: "a < b \<Longrightarrow> MakeDate a t < MakeDate b t"
  by (simp add: MakeDate_def msPerDay_def)

lemma Date_decompose:
  "MakeDate (MakeDay (YearFromTime t) (MonthFromTime t) (DateFromTime t)) (TimeWithinDay t) = t"
  by (simp only: MakeDay_roundtrip MakeDate_roundtrip)

lemma setMonth_less:
  assumes "k = 1 \<or> k = 3 \<or> k = 6"
  shows "setMonth t (getMonth t - k) < t"
proof -
  have "MakeDay (YearFromTime t) (MonthFromTime t - k) (DateFromTime t)
        < MakeDay (YearFromTime t) (MonthFromTime t) (DateFromTime t)"
    using MonthFromTime_range [of t] assms by (intro MakeDay_month_less) simp_all
  then have "setMonth t (getMonth t - k)
        < MakeDate (MakeDay (YearFromTime t) (MonthFromTime t) (DateFromTime t)) (TimeWithinDay t)"
    unfolding setMonth_def getMonth_def by (rule MakeDate_less)
  then show ?thesis by (simp only: Date_decompose)
qed

lemma setFullYear_less: "setFullYear t (getFullYear t - 1) < t"
proof -
  have "MakeDay (YearFromTime t - 1) (MonthFromTime t) (DateFromTime t)
        < MakeDay (YearFromTime t) (MonthFromTime t) (DateFromTime t)"
    using MonthFromTime_range [of t] by (intro MakeDay_year_less) simp_all
  then have "setFullYear t (getFullYear t - 1)
        < MakeDate (MakeDay (YearFromTime t) (MonthFromTime t) (DateFromTime t)) (TimeWithinDay t)"
    unfolding setFullYear_def getFullYear_def by (rule MakeDate_less)
  then show ?thesis by (simp only: Date_decompose)
qed

lemma setDate_less: "0 < n \<Longrightarrow> setDate t (getDate t - n) < t"
  using setDate_shift [of t "- n"] by (simp add: msPerDay_def)

lemma subtractBillingCycle_less:
  assumes "freq = ''monthly'' \<or> freq = ''quarterly'' \<or> freq = ''half-yearly'' \<or> freq = ''yearly''
           \<or> (freq = ''custom'' \<and> customDays = Some n \<and> 0 < n)"
  shows "subtractBillingCycle t freq customDays < t"
  using assms
  by (elim disjE conjE)
     (simp_all add: subtractBillingCycle_def setMonth_less setFullYear_less setDate_less)



lemma progress_finite:
  assumes "prev < next"
  shows "\<exists>p. Math_max (Finite 0) (Math_min (Finite 100)
            (times_number (divide_number (now - prev) (next - prev)) 100)) = Finite p
           \<and> 0 \<le> p \<and> p \<le> 100"
  using assms by (simp add: divide_number_def times_number_def)

subsection \<open>Cycles and sums\<close>

lemma addBillingCycle_rule:
  "addBillingCycle d ''monthly'' c = setMonth d (getMonth d + 1)"
  "addBillingCycle d ''quarterly'' c = setMonth d (getMonth d + 3)"
  "addBillingCycle d ''half-yearly'' c = setMonth d (getMonth d + 6)"
  "addBillingCycle d ''yearly'' c = setFullYear d (getFullYear d + 1)"
  "n \<noteq> 0 \<Longrightarrow> addBillingCycle d ''custom'' (Some n) = d + n * msPerDay"
  by (simp_all add: addBillingCycle_def setDate_shift)


lemma foldl_monthly:
  "foldl (\<lambda>total sub. total + getMonthlyEquivalent sub) a xs
   = a + sum_list (map getMonthlyEquivalent xs)"
  by (induction xs arbitrary: a) simp_all


subsection \<open>Filtering and sorting without exceptions\<close>





subsection \<open>Reading a date back\<close>

lemma DayWithinYear_range:
  "0 \<le> DayWithinYear t \<and> DayWithinYear t < DaysInYear (YearFromTime t)"
  using YearFromDay_bounds [of "Day t"] DayFromYear_step [of "YearFromTime t"]
  by (simp add: DayWithinYear_def YearFromTime_def)

text \<open>The day number, within its year, of the first day after month \<open>m\<close>.\<close>

lemma MonthFromTime_interval:
  "monthStart (MonthFromTime t) (InLeapYear t) \<le> DayWithinYear t
   \<and> DayWithinYear t
       < (if MonthFromTime t = 11 then 365 + InLeapYear t
          else monthStart (MonthFromTime t + 1) (InLeapYear t))"
proof -
  have "DaysInYear (YearFromTime t) = 365 + InLeapYear t"
    by (simp add: InLeapYear_def DaysInYear_def)
  with DayWithinYear_range [of t]
  have r: "0 \<le> DayWithinYear t" "DayWithinYear t < 365 + InLeapYear t"
    by simp_all
  have l: "0 \<le> InLeapYear t"
    by (simp add: InLeapYear_def)
  show ?thesis
    using r l by (simp add: MonthFromTime_def monthStart_def Let_def)
qed

lemma Day_MakeDate: "Day (MakeDate d 0) = d"
  and TimeWithinDay_MakeDate: "TimeWithinDay (MakeDate d 0) = 0"
  by (simp_all add: Day_def TimeWithinDay_def MakeDate_def msPerDay_def)

lemma MakeDay_in_year:
  assumes "0 \<le> m" "m \<le> 11"
  shows "MakeDay y m d = DayFromYear y + monthStart m (if DaysInYear y = 366 then 1 else 0) + d - 1"
  using assms by (simp add: MakeDay_def Let_def)

lemma decode_day:
  assumes m: "0 \<le> m" "m \<le> 11"
    and lo: "monthStart m (if DaysInYear y = 366 then 1 else 0) \<le> w"
    and hi: "w < (if m = 11 then 365 + (if DaysInYear y = 366 then 1 else 0)
                  else monthStart (m + 1) (if DaysInYear y = 366 then 1 else 0))"
    and t: "Day t = DayFromYear y + w"
  shows "YearFromTime t = y" and "MonthFromTime t = m"
    and "DateFromTime t = w - monthStart m (if DaysInYear y = 366 then 1 else 0) + 1"
proof -
  define leap :: int where "leap = (if DaysInYear y = 366 then 1 else 0)"
  have leap: "0 \<le> leap" "leap \<le> 1" "DaysInYear y = 365 + leap"
    by (simp_all add: leap_def DaysInYear_def)
  have w: "0 \<le> w" "w < 365 + leap"
    using month_cases [OF m] lo hi leap(1,2) unfolding leap_def [symmetric]
    by (elim disjE; simp add: monthStart_def)+
  have "DayFromYear y \<le> Day t" "Day t < DayFromYear (y + 1)"
    using w leap(3) t DayFromYear_step [of y] by simp_all
  then show y: "YearFromTime t = y"
    unfolding YearFromTime_def by (rule YearFromDay_unique)
  have dwy: "DayWithinYear t = w"
    by (simp add: DayWithinYear_def y t)
  have il: "InLeapYear t = leap"
    by (simp add: InLeapYear_def y leap_def)
  show mt: "MonthFromTime t = m"
    using month_cases [OF m] lo hi leap(1,2) unfolding leap_def [symmetric]
    by (elim disjE; simp add: MonthFromTime_def Let_def dwy il monthStart_def)
  show "DateFromTime t = w - monthStart m (if DaysInYear y = 366 then 1 else 0) + 1"
    by (simp add: DateFromTime_def dwy il mt leap_def)
qed

lemma Day_bounds: "Day t * msPerDay \<le> t" "t < (Day t + 1) * msPerDay"
  using div_bounds [of msPerDay t] by (simp_all add: Day_def msPerDay_def algebra_simps)

lemma MakeDate_le_Day: "MakeDate d 0 \<le> t \<Longrightarrow> d \<le> Day t"
  using Day_bounds(2) [of t] by (simp add: MakeDate_def msPerDay_def)

lemma Day_less_MakeDate: "Day t < d \<Longrightarrow> t < MakeDate d 0"
  using Day_bounds(2) [of t] by (simp add: MakeDate_def msPerDay_def)

lemma monthStart_nonneg: "0 \<le> leap \<Longrightarrow> 0 \<le> monthStart m leap"
  by (simp add: monthStart_def)

lemma MakeDay_ge_year:
  assumes "0 \<le> m" "m \<le> 11" "1 \<le> bd"
  shows "DayFromYear y \<le> MakeDay y m bd"
proof -
  have "0 \<le> monthStart m (if DaysInYear y = 366 then 1 else 0)"
    by (rule monthStart_nonneg) simp
  then show ?thesis
    using assms by (simp add: MakeDay_in_year)
qed

lemma MakeDay_next_year:
  assumes "0 \<le> m" "m \<le> 11" "1 \<le> bd" "dn < DayFromYear (y + 1)"
  shows "dn < MakeDay (y + 1) m bd"
  using MakeDay_ge_year [OF assms(1-3), of "y + 1"] assms(4) by linarith

lemma MakeDay_later_month:
  assumes m: "0 \<le> m" "m \<le> 11" and k: "k = 1 \<or> k = 3 \<or> k = 6" and bd: "1 \<le> bd"
    and hi: "dn - DayFromYear y
               < (if m = 11 then 365 + (if DaysInYear y = 366 then 1 else 0)
                  else monthStart (m + 1) (if DaysInYear y = 366 then 1 else 0))"
  shows "dn < MakeDay y (m + k) bd"
proof -
  have st: "DayFromYear (y + 1) = DayFromYear y + 365 + (if DaysInYear y = 366 then 1 else 0)"
    using DayFromYear_step [of y] by (simp add: DaysInYear_def)
  from month_cases [OF m] k show ?thesis
    using st hi bd
    by (elim disjE; simp add: MakeDay_def monthStart_def Let_def split: if_splits)
qed

subsection \<open>The next billing date of the calendar frequencies\<close>

text \<open>
  For a recurring subscription billed monthly, quarterly, half-yearly or yearly, with a
  billing day of at least 1, the candidate that is not after \<open>now\<close> lies in the month of
  \<open>now\<close>, and one advance moves it to a later month or year: the result is after \<open>now\<close>.
\<close>

lemma getNextBillingDate_calendar_future:
  assumes rec: "\<not> isOneTime s"
    and freq: "frequency s = ''monthly'' \<or> frequency s = ''quarterly''
               \<or> frequency s = ''half-yearly'' \<or> frequency s = ''yearly''"
    and bd: "1 \<le> billingDate s"
  shows "\<exists>d. getNextBillingDate s now = Inr d \<and> now < d"
proof -
  define y where "y = YearFromTime now"
  define m where "m = MonthFromTime now"
  define leap :: int where "leap = (if DaysInYear y = 366 then 1 else 0)"
  define cand where "cand = newDate (getFullYear now) (getMonth now) (billingDate s)"
  define w where "w = monthStart m leap + billingDate s - 1"
  have m: "0 \<le> m" "m \<le> 11"
    using MonthFromTime_range [of now] by (simp_all add: m_def)
  have il: "InLeapYear now = leap"
    by (simp add: InLeapYear_def y_def leap_def)
  have dn: "DayFromYear y \<le> Day now" "Day now < DayFromYear (y + 1)"
    using YearFromDay_bounds [of "Day now"] by (simp_all add: y_def YearFromTime_def)
  have iv: "monthStart m leap \<le> Day now - DayFromYear y"
      "Day now - DayFromYear y < (if m = 11 then 365 + leap else monthStart (m + 1) leap)"
    using MonthFromTime_interval [of now]
    by (simp_all add: m_def il [symmetric] DayWithinYear_def y_def split: if_splits)
  have res: "getNextBillingDate s now =
      Inr (if cand \<le> now then addBillingCycle cand (frequency s) (customFrequencyDays s) else cand)"
    using rec by (simp add: getNextBillingDate_def Let_def cand_def)
  have "now < addBillingCycle cand (frequency s) (customFrequencyDays s)" if le: "cand \<le> now"
  proof -
    have leap0: "0 \<le> leap" by (simp add: leap_def)
    have old: "\<not> (0 \<le> y \<and> y \<le> 99)"
    proof
      assume c: "0 \<le> y \<and> y \<le> 99"
      then have "DayFromYear (y + 1) \<le> DayFromYear (1900 + y)"
        by (intro DayFromYear_mono) simp
      moreover have "DayFromYear (1900 + y) \<le> MakeDay (1900 + y) m (billingDate s)"
        using m bd by (rule MakeDay_ge_year)
      ultimately have "Day now < MakeDay (1900 + y) m (billingDate s)"
        using dn(2) by linarith
      then have "now < MakeDate (MakeDay (1900 + y) m (billingDate s)) 0"
        by (rule Day_less_MakeDate)
      moreover have "cand = MakeDate (MakeDay (1900 + y) m (billingDate s)) 0"
        using c by (simp add: cand_def newDate_def getFullYear_def getMonth_def y_def m_def)
      ultimately show False using le by simp
    qed
    then have cand: "cand = MakeDate (MakeDay y m (billingDate s)) 0"
      by (auto simp add: cand_def newDate_def getFullYear_def getMonth_def y_def m_def)
    have md: "MakeDay y m (billingDate s) = DayFromYear y + w"
      using m by (simp add: MakeDay_in_year leap_def w_def)
    have dc: "Day cand = DayFromYear y + w"
      by (simp add: cand Day_MakeDate md)
    have "DayFromYear y + w \<le> Day now"
      using le MakeDate_le_Day [of "MakeDay y m (billingDate s)" now] by (simp add: cand md)
    then have whi: "w < (if m = 11 then 365 + leap else monthStart (m + 1) leap)"
      using iv(2) by linarith
    have wlo: "monthStart m leap \<le> w"
      using bd by (simp add: w_def)
    note dec = decode_day [OF m wlo [unfolded leap_def] whi [unfolded leap_def] dc]
    have yc: "YearFromTime cand = y" and mc: "MonthFromTime cand = m"
      using dec(1,2) by simp_all
    have dtc: "DateFromTime cand = billingDate s"
      using dec(3) by (simp add: w_def leap_def)
    have tc: "TimeWithinDay cand = 0"
      by (simp add: cand TimeWithinDay_MakeDate)
    have month: "now < setMonth cand (getMonth cand + k)" if "k = 1 \<or> k = 3 \<or> k = 6" for k
    proof -
      have "Day now < MakeDay y (m + k) (billingDate s)"
        using m that bd iv(2) [unfolded leap_def] by (rule MakeDay_later_month)
      then have "now < MakeDate (MakeDay y (m + k) (billingDate s)) 0"
        by (rule Day_less_MakeDate)
      then show ?thesis
        by (simp add: setMonth_def getMonth_def yc mc dtc tc)
    qed
    have year: "now < setFullYear cand (getFullYear cand + 1)"
    proof -
      have "Day now < MakeDay (y + 1) m (billingDate s)"
        using m bd dn(2) by (rule MakeDay_next_year)
      then have "now < MakeDate (MakeDay (y + 1) m (billingDate s)) 0"
        by (rule Day_less_MakeDate)
      then show ?thesis
        by (simp add: setFullYear_def getFullYear_def yc mc dtc tc)
    qed
    from freq show ?thesis
      using month [of 1] month [of 3] month [of 6] year
      by (elim disjE) (simp_all add: addBillingCycle_def)
  qed
  then show ?thesis
    by (simp add: res)
qed

subsection \<open>Date objects\<close>

text \<open>
  On a Date in range a cycle helper returns the clipped result of its counterpart on time
  values, and an Invalid Date stays invalid. For a recurring subscription whose candidate
  is in range, \<open>getNextBillingDate_clipped\<close> is the clipped \<open>getNextBillingDate\<close>. The
  guard of the end date, the independence from \<open>startDate\<close>, the custom cycle without days
  and the weekly example read the same on Date objects.
\<close>

lemma TimeClip_Some: "TimeClip t = Some u \<Longrightarrow> u = t"
  by (simp add: TimeClip_def split: if_splits)

lemma addBillingCycle_clipped_valid:
  assumes "TimeClip t = Some t"
  shows "addBillingCycle_clipped (Some t) freq customDays = TimeClip (addBillingCycle t freq customDays)"
  using assms
  by (simp add: addBillingCycle_clipped_def addBillingCycle_def Date_setMonth_def
        Date_setFullYear_def Date_setDate_def Date_getMonth_def Date_getFullYear_def
        Date_getDate_def plus_number_def split: option.splits)

lemma subtractBillingCycle_clipped_valid:
  assumes "TimeClip t = Some t"
  shows "subtractBillingCycle_clipped (Some t) freq customDays
           = TimeClip (subtractBillingCycle t freq customDays)"
  using assms
  by (simp add: subtractBillingCycle_clipped_def subtractBillingCycle_def Date_setMonth_def
        Date_setFullYear_def Date_setDate_def Date_getMonth_def Date_getFullYear_def
        Date_getDate_def plus_number_def split: option.splits)

lemma addBillingCycle_clipped_invalid: "addBillingCycle_clipped None freq customDays = None"
  by (simp add: addBillingCycle_clipped_def Date_setMonth_def Date_setFullYear_def
        Date_setDate_def Date_getMonth_def Date_getFullYear_def Date_getDate_def plus_number_def
        split: option.splits)

lemma subtractBillingCycle_clipped_invalid:
  "subtractBillingCycle_clipped None freq customDays = None"
  by (simp add: subtractBillingCycle_clipped_def Date_setMonth_def Date_setFullYear_def
        Date_setDate_def Date_getMonth_def Date_getFullYear_def Date_getDate_def plus_number_def
        split: option.splits)

lemma subtractBillingCycle_clipped_less:
  assumes wf: "freq = ''monthly'' \<or> freq = ''quarterly'' \<or> freq = ''half-yearly''
               \<or> freq = ''yearly'' \<or> (freq = ''custom'' \<and> customDays = Some n \<and> 0 < n)"
    and prev: "subtractBillingCycle_clipped (Some t) freq customDays = Some p"
  shows "p < t"
proof -
  have "subtractBillingCycle_clipped (Some t) freq customDays
          = TimeClip (subtractBillingCycle t freq customDays)"
    using wf
    by (elim disjE conjE)
       (simp_all add: subtractBillingCycle_clipped_def subtractBillingCycle_def Date_setMonth_def
          Date_setFullYear_def Date_setDate_def Date_getMonth_def Date_getFullYear_def
          Date_getDate_def plus_number_def)
  with prev have "p = subtractBillingCycle t freq customDays"
    by (simp add: TimeClip_Some)
  then show ?thesis
    using subtractBillingCycle_less [OF wf, of t] by simp
qed

lemma getSubscriptionEndDate_clipped_guarded:
  "isOneTime s \<and> truthy (cycleLimit s) \<Longrightarrow> \<exists>d. getSubscriptionEndDate_clipped s = Inr d"
  by (auto simp: getSubscriptionEndDate_clipped_def truthy_def split: option.splits)

lemma getNextBillingDate_clipped_total: "\<exists>d. getNextBillingDate_clipped s today = Inr d"
proof (cases "isOneTime s \<and> truthy (cycleLimit s)")
  case True
  then obtain e where "getSubscriptionEndDate_clipped s = Inr e"
    using getSubscriptionEndDate_clipped_guarded by blast
  with True show ?thesis
    by (cases e) (simp_all add: getNextBillingDate_clipped_def Let_def)
next
  case False
  then show ?thesis by (auto simp add: getNextBillingDate_clipped_def Let_def)
qed

lemma getBillingCycleProgress_valid_dates:
  assumes wf: "frequency s = ''monthly'' \<or> frequency s = ''quarterly''
               \<or> frequency s = ''half-yearly'' \<or> frequency s = ''yearly''
               \<or> (frequency s = ''custom'' \<and> customFrequencyDays s = Some n \<and> 0 < n)"
    and nb: "getNextBillingDate_clipped s now = Inr (Some nextBilling)"
    and pb: "subtractBillingCycle_clipped (Some nextBilling) (frequency s) (customFrequencyDays s)
               = Some prevBilling"
  shows "\<exists>p. getBillingCycleProgress s now = Inr (Finite p) \<and> 0 \<le> p \<and> p \<le> 100"
proof -
  have "prevBilling < nextBilling"
    using wf pb by (rule subtractBillingCycle_clipped_less)
  then show ?thesis
    using progress_finite [of prevBilling nextBilling now]
    by (simp add: getBillingCycleProgress_def nb pb Let_def getTime_def Date_getTime_def
          minus_number_def)
qed

lemma getBillingCycleProgress_invalid_dates:
  assumes nb: "getNextBillingDate_clipped s now = Inr nextBilling"
    and inv: "nextBilling = None
              \<or> subtractBillingCycle_clipped nextBilling (frequency s) (customFrequencyDays s) = None"
  shows "getBillingCycleProgress s now = Inr NaN"
proof -
  have "subtractBillingCycle_clipped nextBilling (frequency s) (customFrequencyDays s) = None"
    using inv by (auto simp add: subtractBillingCycle_clipped_invalid)
  then show ?thesis
    by (simp add: getBillingCycleProgress_def nb Let_def Date_getTime_def minus_number_def
          split: option.splits)
qed

lemma getNextBillingDate_clipped_recurring:
  assumes "\<not> isOneTime s"
    and "TimeClip (newDate (getFullYear now) (getMonth now) (billingDate s))
           = Some (newDate (getFullYear now) (getMonth now) (billingDate s))"
    and "getNextBillingDate s now = Inr r"
  shows "getNextBillingDate_clipped s now = Inr (TimeClip r)"
  using assms
  by (auto simp add: getNextBillingDate_clipped_def getNextBillingDate_def Let_def
        addBillingCycle_clipped_valid)

lemma getNextBillingDate_clipped_ignores_startDate:
  "\<not> isOneTime s \<Longrightarrow>
     getNextBillingDate_clipped (s\<lparr>startDate := d\<rparr>) now = getNextBillingDate_clipped s now"
  by (simp add: getNextBillingDate_clipped_def Let_def split: option.splits)

lemma getSubscriptionEndDate_clipped_raises:
  "(\<exists>e. getSubscriptionEndDate_clipped s = Inl e)
     \<longleftrightarrow> (\<not> isOneTime s \<or> cycleLimit s = None \<or> cycleLimit s = Some 0)"
  by (auto simp add: getSubscriptionEndDate_clipped_def truthy_def split: option.splits)

lemma custom_without_days_clipped:
  "addBillingCycle_clipped d ''custom'' None = d"
  "subtractBillingCycle_clipped d ''custom'' None = d"
  by (simp_all add: addBillingCycle_clipped_def subtractBillingCycle_clipped_def)

lemma getNextBillingDate_clipped_weekly:
  "getNextBillingDate_clipped weekly1 (newDate 2024 0 15) = Inr (Some (newDate 2024 0 8))"
  by code_simp

lemma getBillingCycleProgress_examples:
  "getBillingCycleProgress monthly15 (newDate 2024 0 20) = Inr (Finite (500 / 31))"
  "getBillingCycleProgress weekly1 (newDate 2024 0 15) = Inr (Finite 100)"
  "getBillingCycleProgress yearly29 (newDate 2024 1 29 + 43200000) = Inr (Finite 0)"
  "getBillingCycleProgress monthly15 maxTime = Inr NaN"
  by code_simp+

section \<open>The scenarios of the specification\<close>

text \<open>
  Section 8 of the specification, scenarios 1 to 4 and 6, evaluated on the model.
\<close>

lemma scenario1:
  "getNextBillingDate monthly15 (newDate 2024 0 20) = Inr (newDate 2024 1 15)"
  "getDaysUntilBilling monthly15 (newDate 2024 0 20) = Inr 26"
  by code_simp+

lemma scenario2:
  "getSubscriptionEndDate sixMonths = Inr (newDate 2024 6 1)"
  "getCancellationReminderDate sixMonths = Some (newDate 2024 5 1)"
  by code_simp+

lemma scenario3:
  "getMonthlyEquivalent (monthly15\<lparr>amount := 120, frequency := ''yearly''\<rparr>) = 10"
  by code_simp

lemma scenario4:
  "getMonthlyEquivalent
     (monthly15\<lparr>amount := 300, frequency := ''custom'', customFrequencyDays := Some 90\<rparr>) = 100"
  by code_simp

lemma scenario6:
  "calculateTotalMonthlySpend
     [monthly15\<lparr>amount := 10, isDeleted := Some False\<rparr>,
      monthly15\<lparr>amount := 10, isDeleted := Some True\<rparr>] USD = 10"
  by code_simp

section \<open>Claims\<close>

text \<open>
  C1, at a failing input. A recurring subscription billed every 7 days with billing day 1,
  asked on 15 January 2024: the candidate 1 January is not after \<open>now\<close>, one advance
  gives 8 January, and that date is returned although it is before \<open>now\<close>.
\<close>

theorem getNextBillingDate_weekly_past:
  "\<not> isOneTime weekly1 \<and> frequency weekly1 = ''custom''
   \<and> customFrequencyDays weekly1 = Some 7 \<and> billingDate weekly1 = 1
   \<and> getNextBillingDate weekly1 (newDate 2024 0 15) = Inr (newDate 2024 0 8)
   \<and> newDate 2024 0 8 < newDate 2024 0 15"
proof -
  have "getNextBillingDate weekly1 (newDate 2024 0 15) = Inr (newDate 2024 0 8)"
    by code_simp
  moreover have "newDate 2024 0 8 < newDate 2024 0 15"
    by code_simp
  ultimately show ?thesis
    by (simp add: weekly1_def monthly15_def)
qed

text \<open>
  C2. \<open>calculateTotalMonthlySpend\<close> is the sum of \<open>getMonthlyEquivalent\<close> over the
  entries whose \<open>isDeleted\<close> flag is not true, in the amounts' own currencies: the
  converted amount is computed and dropped, and the result is the same for every target
  currency.
\<close>

theorem calculateTotalMonthlySpend_sum:
  "calculateTotalMonthlySpend subs targetCurrency
     = sum_list (map getMonthlyEquivalent (filter (\<lambda>s. isDeleted s \<noteq> Some True) subs))
   \<and> calculateTotalMonthlySpend subs targetCurrency = calculateTotalMonthlySpend subs other"
  by (simp add: calculateTotalMonthlySpend_def Let_def foldl_monthly deleted_def)






text \<open>
  C5. \<open>convertCurrency\<close> returns the amount itself between equal currencies and
  otherwise \<open>amount / rates from * rates to\<close>, with the table USD = 1, INR = 83,
  EUR = 0.92, GBP = 0.79, AUD = 1.52.
\<close>

theorem convertCurrency_table:
  "rates USD = 1 \<and> rates INR = 83 \<and> rates EUR = 92 / 100 \<and> rates GBP = 79 / 100
   \<and> rates AUD = 152 / 100
   \<and> convertCurrency x from to = (if from = to then x else x / rates from * rates to)
   \<and> convertCurrency x c c = x"
  by (simp add: convertCurrency_def)




text \<open>
  C7, at a failing input. A recurring subscription with a custom cycle of 1000000000 days,
  billed on the 15th, asked on 20 January 2024: the candidate 15 January is not after
  \<open>now\<close>, the advance by 1000000000 days leaves the range of a Date, the next billing date
  is the Invalid Date, and \<open>Math.max(0, Math.min(100, NaN))\<close> is NaN, not a number in
  [0, 100].
\<close>

theorem getBillingCycleProgress_NaN:
  "frequency hugeCycle = ''custom'' \<and> customFrequencyDays hugeCycle = Some 1000000000
   \<and> billingDate hugeCycle = 15 \<and> \<not> isOneTime hugeCycle
   \<and> getNextBillingDate_clipped hugeCycle (newDate 2024 0 20) = Inr None
   \<and> getBillingCycleProgress hugeCycle (newDate 2024 0 20) = Inr NaN"
proof -
  have "getNextBillingDate_clipped hugeCycle (newDate 2024 0 20) = Inr None"
    by code_simp
  moreover have "getBillingCycleProgress hugeCycle (newDate 2024 0 20) = Inr NaN"
    by code_simp
  ultimately show ?thesis
    by (simp add: hugeCycle_def monthly15_def)
qed


lemma getUpcomingSubscriptions_example:
  "getUpcomingSubscriptions
     [monthly15\<lparr>ident := ''a'', billingDate := 25\<rparr>,
      monthly15\<lparr>ident := ''b'', billingDate := 22\<rparr>,
      monthly15\<lparr>ident := ''c'', billingDate := 21, isDeleted := Some True\<rparr>,
      monthly15\<lparr>ident := ''d'', billingDate := 10\<rparr>]
     7 (newDate 2024 0 20)
   = Inr [monthly15\<lparr>ident := ''b'', billingDate := 22\<rparr>,
          monthly15\<lparr>ident := ''a'', billingDate := 25\<rparr>]"
  by code_simp

text \<open>
  C9. For a recurring subscription (\<open>isOneTime\<close> false) the result of
  \<open>getNextBillingDate\<close> does not change when \<open>startDate\<close> is replaced by any other
  date: it is the candidate built from the year and month of \<open>now\<close> and \<open>billingDate\<close>,
  advanced one cycle when the candidate is not after \<open>now\<close>. In the example the
  subscription starts in 2030 and its next billing date, asked in January 2024, is
  15 February 2024.
\<close>

theorem getNextBillingDate_ignores_startDate:
  assumes "\<not> isOneTime s"
  shows "getNextBillingDate (s\<lparr>startDate := d\<rparr>) now = getNextBillingDate s now
         \<and> getNextBillingDate s now =
             Inr (let nextDate = newDate (getFullYear now) (getMonth now) (billingDate s)
                  in if nextDate \<le> now
                     then addBillingCycle nextDate (frequency s) (customFrequencyDays s)
                     else nextDate)"
  using assms by (simp add: getNextBillingDate_def Let_def)

theorem getNextBillingDate_ignores_startDate_witness:
  "\<not> isOneTime monthly15
   \<and> getNextBillingDate (monthly15\<lparr>startDate := newDate 2030 0 15\<rparr>) (newDate 2024 0 20)
       = getNextBillingDate monthly15 (newDate 2024 0 20)
   \<and> getNextBillingDate (monthly15\<lparr>startDate := newDate 2030 0 15\<rparr>) (newDate 2024 0 20)
       = Inr (newDate 2024 1 15)
   \<and> newDate 2024 0 20 < newDate 2030 0 15
   \<and> newDate 2024 1 15 < startDate (monthly15\<lparr>startDate := newDate 2030 0 15\<rparr>)"
proof -
  have a: "\<not> isOneTime monthly15" by (simp add: monthly15_def)
  have b: "getNextBillingDate monthly15 (newDate 2024 0 20) = Inr (newDate 2024 1 15)"
    by code_simp
  have c: "newDate 2024 0 20 < newDate 2030 0 15" "newDate 2024 1 15 < newDate 2030 0 15"
    by code_simp+
  show ?thesis
    using getNextBillingDate_ignores_startDate [OF a, of "newDate 2030 0 15" "newDate 2024 0 20"]
      a b c by simp
qed



end
